theory Spec2Isabelle
  imports Main
begin

section \<open>The Unreal Qt framework: activation of the vendored Python packages\<close>

text \<open>
  The repository is one Python module, \<^verbatim>\<open>framework.py\<close>, whose class
  \<^verbatim>\<open>UnrealQtFramework\<close> has the method \<^verbatim>\<open>init_framework\<close> (the activation) and the
  class method \<^verbatim>\<open>platform_name\<close>. The activation reads the interpreter and the file
  system and mutates three pieces of process-wide state: \<^verbatim>\<open>os.environ\<close>,
  \<^verbatim>\<open>sys.path\<close> and the attributes \<^verbatim>\<open>sys.prefix\<close> / \<^verbatim>\<open>sys.real_prefix\<close>.

  The embedding passes that state explicitly (record \<open>world\<close>) and takes everything the
  method only reads or calls from the interpreter's library as a record \<open>host\<close>. A
  Python string is a \<^typ>\<open>string\<close>, a character outside ASCII standing as the bytes of
  its UTF-8 form; the operations the model defines itself (formatting a number, splitting
  and joining at \<^verbatim>\<open>:\<close> or \<^verbatim>\<open>;\<close>, concatenation) act on those bytes as Python does
  on the characters. Calls to the logger have no effect on the modelled state and are left
  out.
\<close>

subsection \<open>Exceptions\<close>

text \<open>
  \<^verbatim>\<open>platform_name\<close> raises \<^verbatim>\<open>ValueError\<close> (the specification's
  \<^verbatim>\<open>UnsupportedPlatformError\<close>) and \<^verbatim>\<open>init_framework\<close> raises \<^verbatim>\<open>RuntimeError\<close>
  (the specification's \<^verbatim>\<open>VendorLibraryNotFoundError\<close>); each carries its message.
  \<^verbatim>\<open>OSError\<close> stands for an exception of \<^verbatim>\<open>os.listdir\<close>, which the method lets
  propagate.
\<close>

datatype error = ValueError string | RuntimeError string | OSError string

text \<open>
  How a call ended. The world is returned next to it in both cases: Python keeps every
  mutation made before an exception is raised.
\<close>

datatype outcome = Returned | Raised error

subsection \<open>String helpers of the Python library\<close>

text \<open>\<^verbatim>\<open>"%d" % n\<close> for a non-negative integer: its decimal digits.\<close>

definition digit_char :: "nat \<Rightarrow> char" where
  "digit_char d = ''0123456789'' ! d"

function str_nat :: "nat \<Rightarrow> string" where
  "str_nat n = (if n < 10 then [digit_char n] else str_nat (n div 10) @ [digit_char (n mod 10)])"
  by pat_completeness auto
termination
  by (relation "measure id") auto

declare str_nat.simps [simp del]

text \<open>
  \<^verbatim>\<open>s.split(sep)\<close> and \<^verbatim>\<open>sep.join(parts)\<close> for a separator of one character, which
  \<^verbatim>\<open>os.pathsep\<close> is. Splitting the empty string gives one empty part.
\<close>

fun str_split :: "char \<Rightarrow> string \<Rightarrow> string list" where
  "str_split sep [] = [[]]"
| "str_split sep (c # cs) =
     (if c = sep then [] # str_split sep cs
      else (case str_split sep cs of
              [] \<Rightarrow> [[c]]
            | part # parts \<Rightarrow> (c # part) # parts))"

fun str_join :: "char \<Rightarrow> string list \<Rightarrow> string" where
  "str_join sep [] = []"
| "str_join sep [part] = part"
| "str_join sep (part # parts) = part @ sep # str_join sep parts"

subsection \<open>The interpreter and the file system, as the method sees them\<close>

text \<open>
  \<^verbatim>\<open>os.pathsep\<close> is \<^verbatim>\<open>";"\<close> in the \<^verbatim>\<open>os\<close> module of Windows and \<^verbatim>\<open>":"\<close> in the
  POSIX one.
\<close>

datatype os_flavour = Posix | Nt

definition pathsep :: "os_flavour \<Rightarrow> char" where
  "pathsep os = (case os of Nt \<Rightarrow> CHR '';'' | Posix \<Rightarrow> CHR '':'')"

text \<open>
  What the method reads and calls but does not define:
  \<^item> \<open>qt_importable\<close>: whether \<^verbatim>\<open>from sgtk.platform.qt import QtCore\<close> succeeds
    (otherwise it raises \<^verbatim>\<open>ImportError\<close>, which the method catches);
  \<^item> \<open>platform_system\<close>: the value of \<^verbatim>\<open>platform.system()\<close>;
  \<^item> \<open>version_major\<close>, \<open>version_minor\<close>: \<^verbatim>\<open>sys.version_info[0]\<close> and \<^verbatim>\<open>[1]\<close>;
  \<^item> \<open>file_dirname\<close>: \<^verbatim>\<open>os.path.dirname(__file__)\<close>;
  \<^item> \<open>os_name\<close>: which \<^verbatim>\<open>os\<close> module is loaded;
  \<^item> \<open>path_join\<close>: \<^verbatim>\<open>os.path.join(a, *p)\<close>;
  \<^item> \<open>realpath\<close>: \<^verbatim>\<open>os.path.realpath\<close>;
  \<^item> \<open>listdir\<close>: \<^verbatim>\<open>os.listdir\<close>, the entries in the order it returns them, or its
    exception;
  \<^item> \<open>re_match\<close>: whether \<^verbatim>\<open>re.match(pattern, string)\<close> returns a match object (which
    is true) rather than \<^verbatim>\<open>None\<close>; what a pattern accepts, such as the characters of
    \<^verbatim>\<open>\d\<close>, is the regular expression engine's matter and differs between interpreters;
  \<^item> \<open>addsitedir\<close>: what \<^verbatim>\<open>site.addsitedir(dir)\<close> makes of \<^verbatim>\<open>sys.path\<close>;
  \<^item> \<open>repr_str\<close>: \<^verbatim>\<open>repr\<close> of a string, used when a list is formatted with \<^verbatim>\<open>%s\<close>.
\<close>

record host =
  qt_importable :: bool
  platform_system :: string
  version_major :: nat
  version_minor :: nat
  file_dirname :: string
  os_name :: os_flavour
  path_join :: "string \<Rightarrow> string list \<Rightarrow> string"
  realpath :: "string \<Rightarrow> string"
  listdir :: "string \<Rightarrow> error + string list"
  re_match :: "string \<Rightarrow> string \<Rightarrow> bool"
  addsitedir :: "string \<Rightarrow> string list \<Rightarrow> string list"
  repr_str :: "string \<Rightarrow> string"

text \<open>
  The process-wide state the method mutates. \<^verbatim>\<open>sys.real_prefix\<close> is an attribute that
  need not exist before the call.
\<close>

record world =
  environ :: "string \<rightharpoonup> string"
  sys_path :: "string list"
  sys_prefix :: string
  sys_real_prefix :: "string option"

text \<open>\<^verbatim>\<open>os.environ.get(key, default)\<close>.\<close>

definition environ_get :: "(string \<rightharpoonup> string) \<Rightarrow> string \<Rightarrow> string \<Rightarrow> string" where
  "environ_get env key dflt = (case env key of None \<Rightarrow> dflt | Some v \<Rightarrow> v)"

text \<open>\<^verbatim>\<open>"%s" % lib_folders\<close>: the \<^verbatim>\<open>repr\<close> of a list of strings.\<close>

definition str_list :: "host \<Rightarrow> string list \<Rightarrow> string" where
  "str_list h xs =
     ''['' @ concat (case map (repr_str h) xs of
                       [] \<Rightarrow> []
                     | r # rs \<Rightarrow> r # map (\<lambda>x. '', '' @ x) rs) @ '']''"

subsection \<open>\<^verbatim>\<open>platform_name\<close>\<close>

definition platform_names :: "string \<rightharpoonup> string" where
  "platform_names =
     [''Darwin'' \<mapsto> ''osx'', ''Linux'' \<mapsto> ''linux'', ''Windows'' \<mapsto> ''windows'']"

text \<open>
  The argument is the value of \<^verbatim>\<open>platform.system()\<close>. \<^verbatim>\<open>not pname\<close> holds for
  \<^verbatim>\<open>None\<close> (no such key) and for the empty string.
\<close>

definition platform_name :: "string \<Rightarrow> error + string" where
  "platform_name system =
     (case platform_names system of
        None \<Rightarrow> Inl (ValueError (''Platform '' @ system @ '' is not supported''))
      | Some pname \<Rightarrow>
          if pname = [] then Inl (ValueError (''Platform '' @ system @ '' is not supported''))
          else Inr pname)"

subsection \<open>\<^verbatim>\<open>init_framework\<close>\<close>

text \<open>The local \<^verbatim>\<open>bin_folder\<close> (lines 48 to 51).\<close>

definition bin_folder_of :: "string \<Rightarrow> string" where
  "bin_folder_of pname = (if pname = ''windows'' then ''Scripts'' else ''bin'')"

text \<open>The local \<^verbatim>\<open>base_path\<close> (lines 55 to 66).\<close>

definition base_path_of :: "host \<Rightarrow> string \<Rightarrow> string" where
  "base_path_of h pname =
     realpath h
       (path_join h (file_dirname h)
          [''python'', ''vendors'',
           ''py'' @ str_nat (version_major h) @ ''.'' @ str_nat (version_minor h),
           pname])"

text \<open>
  The local \<^verbatim>\<open>python_pattern\<close> (line 78), \<^verbatim>\<open>r"^python%d\.\d+$" % python_major\<close>: the
  text of the regular expression, its two backslashes written as \<open>CHR 0x5C\<close>.
\<close>

definition python_pattern :: "nat \<Rightarrow> string" where
  "python_pattern python_major =
     ''^python'' @ str_nat python_major @ CHR 0x5C # ''.'' @ CHR 0x5C # ''d+$''"

text \<open>
  The \<^verbatim>\<open>for ... else\<close> loop over \<^verbatim>\<open>lib_folders\<close> (lines 79 to 88): \<open>Some folder\<close> is
  the \<^verbatim>\<open>break\<close> with the loop variable at \<open>folder\<close>, \<open>None\<close> is the \<^verbatim>\<open>else\<close> branch.
\<close>

fun find_folder :: "host \<Rightarrow> string \<Rightarrow> string list \<Rightarrow> string option" where
  "find_folder h pattern [] = None"
| "find_folder h pattern (folder # lib_folders) =
     (if re_match h pattern folder then Some folder
      else find_folder h pattern lib_folders)"

text \<open>The local \<^verbatim>\<open>site_path\<close> (lines 69 to 94), or the exception raised on the way.\<close>

definition site_path_of :: "host \<Rightarrow> string \<Rightarrow> string \<Rightarrow> error + string" where
  "site_path_of h pname base_path =
     (if pname = ''windows'' then Inr (path_join h base_path [''Lib'', ''site-packages''])
      else
        case listdir h (path_join h base_path [''lib'']) of
          Inl e \<Rightarrow> Inl e
        | Inr lib_folders \<Rightarrow>
            (case find_folder h (python_pattern (version_major h)) lib_folders of
               None \<Rightarrow>
                 Inl (RuntimeError
                        (''Couldn't find python libraries for Python '' @
                         str_nat (version_major h) @ '' from '' @ str_list h lib_folders))
             | Some folder \<Rightarrow>
                 Inr (path_join h base_path [''lib'', folder, ''site-packages''])))"

text \<open>
  The mutations (lines 96 to 109), in the order of the source: \<^verbatim>\<open>VIRTUAL_ENV\<close>,
  \<^verbatim>\<open>PATH\<close>, \<^verbatim>\<open>sys.path\<close>, then the two prefix attributes. The slices
  \<^verbatim>\<open>sys.path[prev_length:]\<close> and \<^verbatim>\<open>sys.path[0:prev_length]\<close> are \<^const>\<open>drop\<close> and
  \<^const>\<open>take\<close>, also when the list is shorter than \<^verbatim>\<open>prev_length\<close>.
\<close>

definition path_mutation :: "host \<Rightarrow> string \<Rightarrow> string \<Rightarrow> string \<Rightarrow> world \<Rightarrow> world" where
  "path_mutation h base_path bin_folder site_path w =
     (let environ1 = (environ w)(''VIRTUAL_ENV'' \<mapsto> base_path);
          environ2 = environ1(''PATH'' \<mapsto>
                       str_join (pathsep (os_name h))
                         ([path_join h base_path [bin_folder]] @
                          str_split (pathsep (os_name h)) (environ_get environ1 ''PATH'' [])));
          prev_length = length (sys_path w);
          sys_path1 = addsitedir h site_path (sys_path w);
          sys_path2 = drop prev_length sys_path1 @ take prev_length sys_path1
      in \<lparr>environ = environ2, sys_path = sys_path2,
          sys_prefix = base_path, sys_real_prefix = Some (sys_prefix w)\<rparr>)"

definition init_framework :: "host \<Rightarrow> world \<Rightarrow> outcome \<times> world" where
  "init_framework h w =
     (if qt_importable h then (Returned, w)
      else
        case platform_name (platform_system h) of
          Inl e \<Rightarrow> (Raised e, w)
        | Inr pname \<Rightarrow>
            (case site_path_of h pname (base_path_of h pname) of
               Inl e \<Rightarrow> (Raised e, w)
             | Inr site_path \<Rightarrow>
                 (Returned,
                  path_mutation h (base_path_of h pname) (bin_folder_of pname) site_path w)))"

subsection \<open>Concrete hosts and worlds\<close>

text \<open>
  \<^verbatim>\<open>posixpath.join(a, *p)\<close>: a component that starts with a slash replaces what came
  before it; otherwise it is appended after one slash.
\<close>

fun posixpath_join :: "string \<Rightarrow> string list \<Rightarrow> string" where
  "posixpath_join a [] = a"
| "posixpath_join a (b # p) =
     posixpath_join
       (if b \<noteq> [] \<and> hd b = CHR ''/'' then b
        else if a = [] \<or> last a = CHR ''/'' then a @ b
        else a @ ''/'' @ b) p"

text \<open>
  \<^verbatim>\<open>ntpath.join\<close> on a first argument that does not end in a separator and on plain
  names (no drive, no separator): the names are appended after a backslash each.
\<close>

fun backslash_join :: "string \<Rightarrow> string list \<Rightarrow> string" where
  "backslash_join a [] = a"
| "backslash_join a (b # p) = backslash_join (a @ CHR 0x5C # b) p"

text \<open>
  \<^verbatim>\<open>site.addsitedir(sitedir)\<close> of the library, for paths that are absolute and
  normalised (so that the library's \<^verbatim>\<open>makepath\<close> leaves them as they are, compared as
  written) and for \<^verbatim>\<open>.pth\<close> files without \<^verbatim>\<open>import\<close> lines. \<open>exists\<close> is
  \<^verbatim>\<open>os.path.exists\<close>; \<open>pth_dirs sitedir\<close> are the directories that the \<^verbatim>\<open>.pth\<close> files of
  \<open>sitedir\<close> name, in the order in which the library reads them. The known paths are the
  entries of \<^verbatim>\<open>sys.path\<close> that exist. The directory is appended unless it is known; then
  each directory of the \<^verbatim>\<open>.pth\<close> files is appended if it exists and is not known.
\<close>

fun addpackage :: "(string \<Rightarrow> bool) \<Rightarrow> string list \<Rightarrow> string list \<times> string list \<Rightarrow>
    string list \<times> string list" where
  "addpackage exists [] (path, known_paths) = (path, known_paths)"
| "addpackage exists (dir # dirs) (path, known_paths) =
     addpackage exists dirs
       (if dir \<notin> set known_paths \<and> exists dir then (path @ [dir], dir # known_paths)
        else (path, known_paths))"

definition site_addsitedir ::
    "(string \<Rightarrow> bool) \<Rightarrow> (string \<Rightarrow> string list) \<Rightarrow> string \<Rightarrow> string list \<Rightarrow> string list" where
  "site_addsitedir exists pth_dirs sitedir path =
     (let known_paths = filter exists path
      in fst (addpackage exists (pth_dirs sitedir)
                (if sitedir \<notin> set known_paths then (path @ [sitedir], sitedir # known_paths)
                 else (path, known_paths))))"

text \<open>
  What \<^verbatim>\<open>re.match\<close> answers for a pattern of the form \<^verbatim>\<open>^python<n>\.\d+$\<close>, with \<open>n\<close> in
  decimal digits, on a string of ASCII characters: the string is \<^verbatim>\<open>python<n>.\<close>, then one
  or more of the digits 0 to 9, then its end, or one newline and its end. (On a string
  with other characters the engine of Python 3 also takes the decimal digits outside
  ASCII for \<^verbatim>\<open>\d\<close>; the listings of the examples hold ASCII names only.) For a pattern of
  another form the example answers that there is no match.
\<close>

fun strip_prefix :: "string \<Rightarrow> string \<Rightarrow> string option" where
  "strip_prefix [] s = Some s"
| "strip_prefix (p # ps) [] = None"
| "strip_prefix (p # ps) (c # cs) = (if p = c then strip_prefix ps cs else None)"

definition ascii_digit :: "char \<Rightarrow> bool" where
  "ascii_digit c = (c \<in> set ''0123456789'')"

definition ascii_re_match :: "string \<Rightarrow> string \<Rightarrow> bool" where
  "ascii_re_match pattern s =
     (case strip_prefix ''^python'' pattern of
        None \<Rightarrow> False
      | Some p \<Rightarrow>
          takeWhile ascii_digit p \<noteq> [] \<and>
          dropWhile ascii_digit p = CHR 0x5C # ''.'' @ CHR 0x5C # ''d+$'' \<and>
          (case strip_prefix (''python'' @ takeWhile ascii_digit p @ ''.'') s of
             None \<Rightarrow> False
           | Some rest \<Rightarrow>
               takeWhile ascii_digit rest \<noteq> [] \<and>
               (dropWhile ascii_digit rest = [] \<or> dropWhile ascii_digit rest = [CHR 0x0A])))"

text \<open>\<^verbatim>\<open>repr\<close> of a string without quotes, backslashes or control characters.\<close>

definition example_repr :: "string \<Rightarrow> string" where
  "example_repr s = CHR 0x27 # s @ [CHR 0x27]"

text \<open>
  The end-to-end scenario of the specification: Python 3.10 on Linux, the framework under
  \<^verbatim>\<open>/opt/app\<close>, the vendor tree holding \<^verbatim>\<open>lib/python3.10/site-packages\<close>. The directories
  of \<open>linux_dirs\<close> exist; no \<^verbatim>\<open>.pth\<close> file is present.
\<close>

definition linux_dirs :: "string list" where
  "linux_dirs =
     [''/usr/lib/python3.10'',
      ''/opt/app/python/vendors/py3.10/linux/lib/python3.10/site-packages'',
      ''/opt/app/extras'']"

definition linux_host :: host where
  "linux_host =
     \<lparr>qt_importable = False, platform_system = ''Linux'',
      version_major = 3, version_minor = 10,
      file_dirname = ''/opt/app'', os_name = Posix,
      path_join = posixpath_join, realpath = (\<lambda>p. p),
      listdir = (\<lambda>d. if d = ''/opt/app/python/vendors/py3.10/linux/lib''
                      then Inr [''pkgconfig'', ''python3.10'']
                      else Inl (OSError ''No such file or directory'')),
      re_match = ascii_re_match,
      addsitedir = site_addsitedir (\<lambda>p. p \<in> set linux_dirs) (\<lambda>d. []),
      repr_str = example_repr\<rparr>"

definition linux_world :: world where
  "linux_world =
     \<lparr>environ = [''PATH'' \<mapsto> ''/usr/bin:/bin''],
      sys_path = [''/usr/lib/python3.10''],
      sys_prefix = ''/usr'', sys_real_prefix = None\<rparr>"

text \<open>
  The same interpreter on Windows, the framework under \<^verbatim>\<open>C:\app\<close>; no directory can be
  listed.
\<close>

definition windows_host :: host where
  "windows_host =
     linux_host
       \<lparr>platform_system := ''Windows'', os_name := Nt,
        file_dirname := backslash_join ''C:'' [''app''],
        path_join := backslash_join,
        listdir := (\<lambda>d. Inl (OSError ''No such file or directory'')),
        addsitedir := site_addsitedir (\<lambda>p. True) (\<lambda>d. [])\<rparr>"

definition windows_world :: world where
  "windows_world =
     \<lparr>environ = [''PATH'' \<mapsto> ''C:/Windows;C:/Python''],
      sys_path = [''C:/Python/Lib''],
      sys_prefix = ''C:/Python'', sys_real_prefix = Some ''C:/Older''\<rparr>"

text \<open>
  A vendor tree for Python 3.9 under \<^verbatim>\<open>/vendor\<close>: of the names in its \<^verbatim>\<open>lib\<close> only the
  last one matches the pattern.
\<close>

definition vendor_folders :: "string list" where
  "vendor_folders =
     [''Python3.9'', ''python2.7'', ''python3'', ''python3.'', ''python3.9m'', ''python3x9'',
      ''libpython3.9'', ''python3.9'']"

definition vendor_host :: host where
  "vendor_host =
     linux_host
       \<lparr>version_minor := 9,
        listdir := (\<lambda>d. if d = ''/vendor/lib'' then Inr vendor_folders
                        else Inl (OSError ''No such file or directory''))\<rparr>"

text \<open>The Linux host with a vendor tree that has no folder for Python 3.\<close>

definition bare_host :: host where
  "bare_host =
     linux_host
       \<lparr>listdir := (\<lambda>d. if d = ''/opt/app/python/vendors/py3.10/linux/lib''
                        then Inr [''python2.7'', ''site-packages'']
                        else Inl (OSError ''No such file or directory''))\<rparr>"

text \<open>A vendor tree under \<^verbatim>\<open>/vendor\<close> with two matching folders.\<close>

definition two_pythons_host :: host where
  "two_pythons_host =
     linux_host
       \<lparr>listdir := (\<lambda>d. if d = ''/vendor/lib''
                        then Inr [''README'', ''python3.10'', ''python3.9'']
                        else Inl (OSError ''No such file or directory''))\<rparr>"

text \<open>
  The Linux host whose site directory has a \<^verbatim>\<open>.pth\<close> file naming the existing directory
  \<^verbatim>\<open>/opt/app/extras\<close>.
\<close>

definition pth_host :: host where
  "pth_host =
     linux_host
       \<lparr>addsitedir := site_addsitedir (\<lambda>p. p \<in> set linux_dirs) (\<lambda>d. [''/opt/app/extras''])\<rparr>"

text \<open>
  A process that already has the vendored site directory, which exists, on its path, in
  second place.
\<close>

definition preloaded_world :: world where
  "preloaded_world =
     linux_world
       \<lparr>sys_path := [''/usr/lib/python3.10'',
                     ''/opt/app/python/vendors/py3.10/linux/lib/python3.10/site-packages'']\<rparr>"

section \<open>Properties\<close>

subsection \<open>Splitting and joining\<close>

lemma str_split_not_Nil: "str_split sep s \<noteq> []"
  by (induction s) (auto split: list.splits)

lemma str_join_Cons:
  "parts \<noteq> [] \<Longrightarrow> str_join sep (part # parts) = part @ sep # str_join sep parts"
  by (cases parts) simp_all

lemma str_join_split: "str_join sep (str_split sep s) = s"
proof (induction s)
  case Nil
  show ?case by simp
next
  case (Cons c cs)
  obtain part parts where sp: "str_split sep cs = part # parts"
    using str_split_not_Nil [of sep cs] by (cases "str_split sep cs") auto
  show ?case
  proof (cases "c = sep")
    case True
    then show ?thesis
      using Cons.IH by (simp add: str_join_Cons str_split_not_Nil)
  next
    case False
    then show ?thesis
      using Cons.IH sp by (cases parts) auto
  qed
qed

lemma str_join_prepend: "str_join sep ([x] @ str_split sep s) = x @ sep # s"
  by (simp add: str_join_Cons str_split_not_Nil str_join_split)

lemma str_split_append:
  "str_split sep (a @ sep # b) = str_split sep a @ str_split sep b"
proof (induction a)
  case Nil
  show ?case by simp
next
  case (Cons c a)
  obtain part parts where sp: "str_split sep a = part # parts"
    using str_split_not_Nil [of sep a] by (cases "str_split sep a") auto
  show ?case
    using Cons.IH sp by simp
qed

subsection \<open>The search loop\<close>

lemma find_folder_None:
  "find_folder h pattern xs = None \<longleftrightarrow> (\<forall>x\<in>set xs. \<not> re_match h pattern x)"
  by (induction xs) auto

lemma find_folder_first:
  "\<forall>x\<in>set pre. \<not> re_match h pattern x \<Longrightarrow> re_match h pattern folder \<Longrightarrow>
   find_folder h pattern (pre @ folder # post) = Some folder"
  by (induction pre) auto

lemma find_folder_single:
  "filter (re_match h pattern) xs = [folder] \<Longrightarrow> find_folder h pattern xs = Some folder"
  by (induction xs) (auto split: if_splits)

subsection \<open>Evaluating the concrete hosts\<close>

lemma str_nat_3: "str_nat 3 = ''3''"
  by code_simp

lemma str_nat_9: "str_nat 9 = ''9''"
  by code_simp

lemma str_nat_10: "str_nat 10 = ''10''"
  by code_simp

lemma python_pattern_3: "python_pattern 3 = ''^python3'' @ CHR 0x5C # ''.'' @ CHR 0x5C # ''d+$''"
  by (simp add: python_pattern_def str_nat_3)

lemma match_python3_10: "ascii_re_match (python_pattern 3) ''python3.10''"
  by code_simp

lemma match_python3_9: "ascii_re_match (python_pattern 3) ''python3.9''"
  by code_simp

lemma no_match_pkgconfig: "\<not> ascii_re_match (python_pattern 3) ''pkgconfig''"
  by code_simp

lemma no_match_README: "\<not> ascii_re_match (python_pattern 3) ''README''"
  by code_simp

lemma no_match_python2_7: "\<not> ascii_re_match (python_pattern 3) ''python2.7''"
  by code_simp

lemma no_match_site_packages: "\<not> ascii_re_match (python_pattern 3) ''site-packages''"
  by code_simp

lemma vendor_folders_filter:
  "filter (ascii_re_match (python_pattern 3)) vendor_folders = [''python3.9'']"
  by code_simp

lemmas matches =
  match_python3_10 match_python3_9 no_match_pkgconfig no_match_README
  no_match_python2_7 no_match_site_packages

lemmas hosts =
  linux_host_def windows_host_def vendor_host_def bare_host_def two_pythons_host_def
  pth_host_def

lemmas worlds = linux_world_def windows_world_def preloaded_world_def

lemmas steps =
  init_framework_def platform_name_def platform_names_def base_path_of_def bin_folder_of_def
  site_path_of_def path_mutation_def environ_get_def pathsep_def site_addsitedir_def
  linux_dirs_def str_nat_3 str_nat_9 str_nat_10

lemma returned_pair: "fst r = Returned \<Longrightarrow> r = (Returned, snd r)"
  by (cases r) simp

lemma linux_returns: "fst (init_framework linux_host w) = Returned"
  by (simp add: steps hosts matches)

lemma pth_returns: "fst (init_framework pth_host w) = Returned"
  by (simp add: steps hosts matches)

lemma windows_returns: "fst (init_framework windows_host w) = Returned"
  by (simp add: steps hosts)

section \<open>The claims\<close>

subsection \<open>Platform names\<close>

text \<open>
  Claim C4. \<^verbatim>\<open>platform_name\<close> maps \<^verbatim>\<open>Darwin\<close> to \<^verbatim>\<open>osx\<close>, \<^verbatim>\<open>Linux\<close> to \<^verbatim>\<open>linux\<close> and
  \<^verbatim>\<open>Windows\<close> to \<^verbatim>\<open>windows\<close>; on every other system name it raises the
  unsupported-platform error (a \<^verbatim>\<open>ValueError\<close>) whose message carries that name as it
  was detected.
\<close>

theorem platform_name_mapping:
  "platform_name ''Darwin'' = Inr ''osx'' \<and>
   platform_name ''Linux'' = Inr ''linux'' \<and>
   platform_name ''Windows'' = Inr ''windows'' \<and>
   (system \<notin> {''Darwin'', ''Linux'', ''Windows''} \<longrightarrow>
      platform_name system = Inl (ValueError (''Platform '' @ system @ '' is not supported'')))"
  by (simp add: platform_name_def platform_names_def)

theorem platform_name_mapping_witness:
  "''FreeBSD'' \<notin> {''Darwin'', ''Linux'', ''Windows''} \<and>
   platform_name ''FreeBSD'' = Inl (ValueError ''Platform FreeBSD is not supported'')"
  using platform_name_mapping [of "''FreeBSD''"] by simp

subsection \<open>The probe and the two errors\<close>

text \<open>
  Claim C6. When the import probe succeeds, the activation returns at once and the
  world after the call is the world before it: environment, module search path and both
  root markers are untouched.
\<close>

theorem probe_success_no_mutation:
  "qt_importable h \<Longrightarrow> init_framework h w = (Returned, w)"
  by (simp add: init_framework_def)

theorem probe_success_no_mutation_witness:
  "qt_importable (linux_host\<lparr>qt_importable := True\<rparr>) \<and>
   init_framework (linux_host\<lparr>qt_importable := True\<rparr>) linux_world = (Returned, linux_world)"
  using probe_success_no_mutation [of "linux_host\<lparr>qt_importable := True\<rparr>" linux_world]
  by simp

text \<open>
  Claim C9. Whenever the activation ends with the unsupported-platform error or with the
  vendor-library-not-found error, nothing has been mutated: the world is exactly the one
  before the call.
\<close>

theorem defined_errors_atomic:
  "fst (init_framework h w) = Raised (ValueError msg) \<or>
   fst (init_framework h w) = Raised (RuntimeError msg) \<Longrightarrow>
   snd (init_framework h w) = w"
  by (auto simp: init_framework_def split: if_splits sum.splits)

theorem defined_errors_atomic_witness:
  "fst (init_framework (linux_host\<lparr>platform_system := ''FreeBSD''\<rparr>) linux_world) =
     Raised (ValueError ''Platform FreeBSD is not supported'') \<and>
   snd (init_framework (linux_host\<lparr>platform_system := ''FreeBSD''\<rparr>) linux_world) = linux_world"
proof -
  have raised:
    "fst (init_framework (linux_host\<lparr>platform_system := ''FreeBSD''\<rparr>) linux_world) =
       Raised (ValueError ''Platform FreeBSD is not supported'')"
    by (simp add: steps hosts)
  show ?thesis
    using raised defined_errors_atomic [OF disjI1 [OF raised]] by simp
qed

subsection \<open>Finding the library folder\<close>

text \<open>
  Claim C2. On a platform name other than \<^verbatim>\<open>windows\<close>, the discovery lists the \<^verbatim>\<open>lib\<close>
  subdirectory of the base path, and when exactly one entry of the listing matches the
  pattern \<^verbatim>\<open>^python<major>\.\d+$\<close> (as \<^verbatim>\<open>re.match\<close> of the interpreter decides it) the
  discovery returns the base path joined with \<^verbatim>\<open>lib\<close>, that entry and \<^verbatim>\<open>site-packages\<close>.
\<close>

theorem site_path_single_match:
  "\<lbrakk>pname \<noteq> ''windows'';
    listdir h (path_join h base_path [''lib'']) = Inr lib_folders;
    filter (re_match h (''^python'' @ str_nat (version_major h) @ CHR 0x5C # ''.'' @ CHR 0x5C # ''d+$'')) lib_folders = [folder]\<rbrakk>
   \<Longrightarrow> site_path_of h pname base_path =
         Inr (path_join h base_path [''lib'', folder, ''site-packages''])"
  by (simp add: site_path_of_def python_pattern_def find_folder_single)

text \<open>
  Python 3.9 and a \<^verbatim>\<open>lib\<close> directory in which the names that differ from the pattern in
  case, major version, missing digits, a trailing or a leading character do not match.
\<close>

theorem site_path_single_match_witness:
  "listdir vendor_host ''/vendor/lib'' =
     Inr [''Python3.9'', ''python2.7'', ''python3'', ''python3.'', ''python3.9m'', ''python3x9'',
          ''libpython3.9'', ''python3.9''] \<and>
   filter (re_match vendor_host (''^python3'' @ CHR 0x5C # ''.'' @ CHR 0x5C # ''d+$''))
     vendor_folders = [''python3.9''] \<and>
   site_path_of vendor_host ''linux'' ''/vendor'' = Inr ''/vendor/lib/python3.9/site-packages''"
proof -
  have pn: "''linux'' \<noteq> ''windows''"
    by simp
  have ls: "listdir vendor_host (path_join vendor_host ''/vendor'' [''lib'']) = Inr vendor_folders"
    by (simp add: hosts)
  have ft: "filter (re_match vendor_host
                      (''^python'' @ str_nat (version_major vendor_host) @
                       CHR 0x5C # ''.'' @ CHR 0x5C # ''d+$''))
              vendor_folders = [''python3.9'']"
    using vendor_folders_filter by (simp add: hosts python_pattern_def)
  show ?thesis
    using ft site_path_single_match [OF pn ls ft]
    by (simp add: hosts str_nat_3 vendor_folders_def)
qed

text \<open>
  Claim C3. On a platform other than Windows, when the listing of \<^verbatim>\<open>lib\<close> has no entry
  that matches the pattern \<^verbatim>\<open>^python<major>\.\d+$\<close>, the activation raises the
  vendor-library-not-found error (a \<^verbatim>\<open>RuntimeError\<close>); its message names the major
  version of the interpreter and the list of the entries that were examined.
\<close>

theorem no_match_raises:
  "\<lbrakk>\<not> qt_importable h;
    platform_name (platform_system h) = Inr pname; pname \<noteq> ''windows'';
    listdir h (path_join h (base_path_of h pname) [''lib'']) = Inr lib_folders;
    \<forall>folder \<in> set lib_folders.
       \<not> re_match h
            (''^python'' @ str_nat (version_major h) @ CHR 0x5C # ''.'' @ CHR 0x5C # ''d+$'')
            folder\<rbrakk>
   \<Longrightarrow> init_framework h w =
         (Raised (RuntimeError
                    (''Couldn't find python libraries for Python '' @
                     str_nat (version_major h) @ '' from '' @ str_list h lib_folders)), w)"
  by (simp add: init_framework_def site_path_of_def python_pattern_def
      find_folder_None [THEN iffD2])

theorem no_match_raises_witness:
  "init_framework bare_host linux_world =
     (Raised (RuntimeError
        (''Couldn't find python libraries for Python 3 from ['' @
         CHR 0x27 # ''python2.7'' @ CHR 0x27 # '', '' @ CHR 0x27 # ''site-packages'' @ CHR 0x27 # '']'')),
      linux_world)"
proof -
  have nq: "\<not> qt_importable bare_host"
    by (simp add: hosts)
  have pn: "platform_name (platform_system bare_host) = Inr ''linux''"
    by (simp add: steps hosts)
  have nw: "''linux'' \<noteq> ''windows''"
    by simp
  have ls: "listdir bare_host (path_join bare_host (base_path_of bare_host ''linux'') [''lib'']) =
              Inr [''python2.7'', ''site-packages'']"
    by (simp add: steps hosts)
  have nm: "\<forall>folder \<in> set [''python2.7'', ''site-packages''].
              \<not> re_match bare_host
                   (''^python'' @ str_nat (version_major bare_host) @
                    CHR 0x5C # ''.'' @ CHR 0x5C # ''d+$'') folder"
    using no_match_python2_7 no_match_site_packages by (simp add: hosts python_pattern_def)
  show ?thesis
    using no_match_raises [OF nq pn nw ls nm, of linux_world]
    by (simp add: hosts str_list_def example_repr_def str_nat_3)
qed

text \<open>
  Claim C10. When more than one entry of the listing matches the pattern
  \<^verbatim>\<open>^python<major>\.\d+$\<close>, the discovery does not fail: it takes the first matching
  entry in the order of the listing and builds the site-packages path from it. Uniqueness
  is not checked.
\<close>

theorem site_path_first_match:
  "\<lbrakk>pname \<noteq> ''windows'';
    listdir h (path_join h base_path [''lib'']) = Inr (before @ folder # after);
    \<forall>x \<in> set before. \<not> re_match h (''^python'' @ str_nat (version_major h) @ CHR 0x5C # ''.'' @ CHR 0x5C # ''d+$'') x;
    re_match h (''^python'' @ str_nat (version_major h) @ CHR 0x5C # ''.'' @ CHR 0x5C # ''d+$'') folder;
    \<exists>x \<in> set after. re_match h (''^python'' @ str_nat (version_major h) @ CHR 0x5C # ''.'' @ CHR 0x5C # ''d+$'') x\<rbrakk>
   \<Longrightarrow> site_path_of h pname base_path =
         Inr (path_join h base_path [''lib'', folder, ''site-packages''])"
  by (simp add: site_path_of_def python_pattern_def find_folder_first)

theorem site_path_first_match_witness:
  "listdir two_pythons_host ''/vendor/lib'' = Inr [''README'', ''python3.10'', ''python3.9''] \<and>
   re_match two_pythons_host (''^python3'' @ CHR 0x5C # ''.'' @ CHR 0x5C # ''d+$'') ''python3.10'' \<and>
   re_match two_pythons_host (''^python3'' @ CHR 0x5C # ''.'' @ CHR 0x5C # ''d+$'') ''python3.9'' \<and>
   site_path_of two_pythons_host ''linux'' ''/vendor'' = Inr ''/vendor/lib/python3.10/site-packages''"
proof -
  let ?pat = "''^python'' @ str_nat (version_major two_pythons_host) @
              CHR 0x5C # ''.'' @ CHR 0x5C # ''d+$''"
  have pn: "''linux'' \<noteq> ''windows''"
    by simp
  have ls: "listdir two_pythons_host (path_join two_pythons_host ''/vendor'' [''lib'']) =
              Inr ([''README''] @ ''python3.10'' # [''python3.9''])"
    by (simp add: hosts)
  have b: "\<forall>x \<in> set [''README'']. \<not> re_match two_pythons_host ?pat x"
    using no_match_README by (simp add: hosts python_pattern_def)
  have m: "re_match two_pythons_host ?pat ''python3.10''"
    using match_python3_10 by (simp add: hosts python_pattern_def)
  have a: "\<exists>x \<in> set [''python3.9'']. re_match two_pythons_host ?pat x"
    using match_python3_9 by (simp add: hosts python_pattern_def)
  show ?thesis
    using m a site_path_first_match [OF pn ls b m a] by (simp add: hosts str_nat_3)
qed

subsection \<open>The Windows layout\<close>

text \<open>
  Claim C7. When the platform name is \<^verbatim>\<open>windows\<close>, the binary folder is \<^verbatim>\<open>Scripts\<close>, the
  library path is the base path joined with \<^verbatim>\<open>Lib\<close> and \<^verbatim>\<open>site-packages\<close>, and no
  directory is listed: whatever \<^verbatim>\<open>os.listdir\<close> would answer or raise, the activation
  returns the same mutated world.
\<close>

theorem windows_layout:
  "\<lbrakk>\<not> qt_importable h; platform_name (platform_system h) = Inr ''windows''\<rbrakk>
   \<Longrightarrow> bin_folder_of ''windows'' = ''Scripts'' \<and>
       site_path_of h ''windows'' base_path =
         Inr (path_join h base_path [''Lib'', ''site-packages'']) \<and>
       site_path_of (h\<lparr>listdir := f\<rparr>) ''windows'' base_path =
         site_path_of h ''windows'' base_path \<and>
       init_framework h w =
         (Returned,
          path_mutation h (base_path_of h ''windows'') ''Scripts''
            (path_join h (base_path_of h ''windows'') [''Lib'', ''site-packages'']) w) \<and>
       init_framework (h\<lparr>listdir := f\<rparr>) w = init_framework h w"
  by (simp add: init_framework_def site_path_of_def bin_folder_of_def base_path_of_def
      path_mutation_def)

theorem windows_layout_witness:
  "listdir windows_host (backslash_join ''C:'' [''vendor'', ''lib'']) =
     Inl (OSError ''No such file or directory'') \<and>
   site_path_of windows_host ''windows'' (backslash_join ''C:'' [''vendor'']) =
     Inr (backslash_join ''C:'' [''vendor'', ''Lib'', ''site-packages'']) \<and>
   fst (init_framework windows_host windows_world) = Returned \<and>
   sys_path (snd (init_framework windows_host windows_world)) =
     [backslash_join ''C:''
        [''app'', ''python'', ''vendors'', ''py3.10'', ''windows'', ''Lib'', ''site-packages''],
      ''C:/Python/Lib'']"
proof -
  have nq: "\<not> qt_importable windows_host"
    by (simp add: hosts)
  have pn: "platform_name (platform_system windows_host) = Inr ''windows''"
    by (simp add: steps hosts)
  have ls: "listdir windows_host (backslash_join ''C:'' [''vendor'', ''lib'']) =
              Inl (OSError ''No such file or directory'')"
    by (simp add: hosts)
  show ?thesis
    using ls windows_layout [OF nq pn, of "backslash_join ''C:'' [''vendor'']" "listdir windows_host"
        windows_world]
    by (simp add: hosts worlds base_path_of_def path_mutation_def site_addsitedir_def
        str_nat_3 str_nat_10)
qed

subsection \<open>The mutations\<close>

text \<open>
  Claim C5. After an activation that ran (the probe failed) and returned, \<^verbatim>\<open>PATH\<close> is the
  base path joined with the binary folder, then the path-list separator of the platform
  (\<^verbatim>\<open>;\<close> under the Windows \<^verbatim>\<open>os\<close> module, \<^verbatim>\<open>:\<close> under the POSIX one), then the former
  value of \<^verbatim>\<open>PATH\<close> (empty when it was unset). Split at the separator, the new value is
  the entries of the prepended path followed by the former entries, unchanged and in
  their order.
\<close>

theorem path_env_prepended:
  "\<lbrakk>\<not> qt_importable h; platform_name (platform_system h) = Inr pname;
    init_framework h w = (Returned, w')\<rbrakk>
   \<Longrightarrow> (os_name h = Nt \<longrightarrow>
          environ w' ''PATH'' =
            Some (path_join h (base_path_of h pname) [bin_folder_of pname] @ '';'' @
                  environ_get (environ w) ''PATH'' [])) \<and>
       (os_name h = Posix \<longrightarrow>
          environ w' ''PATH'' =
            Some (path_join h (base_path_of h pname) [bin_folder_of pname] @ '':'' @
                  environ_get (environ w) ''PATH'' [])) \<and>
       map_option (str_split (pathsep (os_name h))) (environ w' ''PATH'') =
         Some (str_split (pathsep (os_name h))
                 (path_join h (base_path_of h pname) [bin_folder_of pname]) @
               str_split (pathsep (os_name h)) (environ_get (environ w) ''PATH'' []))"
  by (auto simp: init_framework_def path_mutation_def Let_def environ_get_def pathsep_def
      str_join_Cons str_split_not_Nil str_join_split str_split_append
      split: sum.splits)

theorem path_env_prepended_witness:
  "environ (snd (init_framework linux_host linux_world)) ''PATH'' =
     Some ''/opt/app/python/vendors/py3.10/linux/bin:/usr/bin:/bin'' \<and>
   environ (snd (init_framework windows_host windows_world)) ''PATH'' =
     Some (backslash_join ''C:'' [''app'', ''python'', ''vendors'', ''py3.10'', ''windows'', ''Scripts''] @
           '';C:/Windows;C:/Python'')"
proof -
  have nq: "\<not> qt_importable linux_host" "\<not> qt_importable windows_host"
    by (simp_all add: hosts)
  have pl: "platform_name (platform_system linux_host) = Inr ''linux''"
    by (simp add: steps hosts)
  have pw: "platform_name (platform_system windows_host) = Inr ''windows''"
    by (simp add: steps hosts)
  note l = path_env_prepended [OF nq(1) pl returned_pair [OF linux_returns], of linux_world]
  note w = path_env_prepended [OF nq(2) pw returned_pair [OF windows_returns], of windows_world]
  show ?thesis
    using l w by (simp add: hosts worlds steps)
qed

text \<open>
  Claim C8. After an activation that ran and returned, \<^verbatim>\<open>sys.real_prefix\<close> holds the value
  \<^verbatim>\<open>sys.prefix\<close> had before the call and \<^verbatim>\<open>sys.prefix\<close> is the computed base path,
  whatever the two attributes held before.
\<close>

theorem root_markers_swapped:
  "\<lbrakk>\<not> qt_importable h; platform_name (platform_system h) = Inr pname;
    init_framework h w = (Returned, w')\<rbrakk>
   \<Longrightarrow> sys_real_prefix w' = Some (sys_prefix w) \<and> sys_prefix w' = base_path_of h pname"
  by (auto simp: init_framework_def path_mutation_def Let_def split: sum.splits)

theorem root_markers_swapped_witness:
  "sys_real_prefix windows_world = Some ''C:/Older'' \<and>
   sys_real_prefix (snd (init_framework windows_host windows_world)) = Some ''C:/Python'' \<and>
   sys_prefix (snd (init_framework windows_host windows_world)) =
     backslash_join ''C:'' [''app'', ''python'', ''vendors'', ''py3.10'', ''windows'']"
proof -
  have nq: "\<not> qt_importable windows_host"
    by (simp add: hosts)
  have pw: "platform_name (platform_system windows_host) = Inr ''windows''"
    by (simp add: steps hosts)
  show ?thesis
    using root_markers_swapped [OF nq pw returned_pair [OF windows_returns], of windows_world]
    by (simp add: hosts worlds steps)
qed

text \<open>
  Claim C1, as stated, fails. The method moves to the front whatever stands in the path
  beyond its former length once \<^verbatim>\<open>site.addsitedir\<close> has run, and nothing else. In
  \<open>preloaded_world\<close> the resolved library directory exists and is already on the path,
  behind \<^verbatim>\<open>/usr/lib/python3.10\<close>; \<^verbatim>\<open>site.addsitedir\<close> then leaves the path as it is,
  the activation returns, and the directory is still behind that entry, which was there
  before the call.
\<close>

theorem library_dir_ahead_counterexample:
  "\<not> qt_importable linux_host \<and>
   fst (init_framework linux_host preloaded_world) = Returned \<and>
   site_path_of linux_host ''linux'' (base_path_of linux_host ''linux'') =
     Inr ''/opt/app/python/vendors/py3.10/linux/lib/python3.10/site-packages'' \<and>
   sys_path preloaded_world =
     [''/usr/lib/python3.10'',
      ''/opt/app/python/vendors/py3.10/linux/lib/python3.10/site-packages''] \<and>
   addsitedir linux_host ''/opt/app/python/vendors/py3.10/linux/lib/python3.10/site-packages''
     (sys_path preloaded_world) = sys_path preloaded_world \<and>
   sys_path (snd (init_framework linux_host preloaded_world)) =
     [''/usr/lib/python3.10'',
      ''/opt/app/python/vendors/py3.10/linux/lib/python3.10/site-packages''] \<and>
   hd (sys_path (snd (init_framework linux_host preloaded_world))) \<noteq>
     ''/opt/app/python/vendors/py3.10/linux/lib/python3.10/site-packages''"
  by (simp add: steps hosts worlds matches)

text \<open>
  Claim C1, amended. After a successful activation on a system where the bindings were
  not importable, the module search path is the path as the insertion mechanism left it,
  rotated at the length the path had before the call: first the entries that the
  mechanism left beyond that length, in their order, then the entries it left within that
  length, in their order. Hence, if the mechanism did nothing but append entries to the
  path, those entries stand, in the order in which they were appended, ahead of every
  entry present before the call, and the entries present before keep their order; and if
  the resolved library directory was the first entry it appended, that directory is the
  first entry of the path.
\<close>

theorem sys_path_rotated_at_former_length:
  "\<lbrakk>\<not> qt_importable h; platform_name (platform_system h) = Inr pname;
    site_path_of h pname (base_path_of h pname) = Inr site_path;
    init_framework h w = (Returned, w')\<rbrakk>
   \<Longrightarrow> sys_path w' =
         drop (length (sys_path w)) (addsitedir h site_path (sys_path w)) @
         take (length (sys_path w)) (addsitedir h site_path (sys_path w)) \<and>
       (\<forall>added. addsitedir h site_path (sys_path w) = sys_path w @ added \<longrightarrow>
                  sys_path w' = added @ sys_path w) \<and>
       (\<forall>others. addsitedir h site_path (sys_path w) = sys_path w @ site_path # others \<longrightarrow>
                   sys_path w' = site_path # others @ sys_path w)"
  by (auto simp: init_framework_def path_mutation_def Let_def split: sum.splits)

theorem sys_path_rotated_at_former_length_witness:
  "sys_path linux_world = [''/usr/lib/python3.10''] \<and>
   addsitedir pth_host ''/opt/app/python/vendors/py3.10/linux/lib/python3.10/site-packages''
     (sys_path linux_world) =
     [''/usr/lib/python3.10'',
      ''/opt/app/python/vendors/py3.10/linux/lib/python3.10/site-packages'',
      ''/opt/app/extras''] \<and>
   sys_path (snd (init_framework pth_host linux_world)) =
     [''/opt/app/python/vendors/py3.10/linux/lib/python3.10/site-packages'',
      ''/opt/app/extras'',
      ''/usr/lib/python3.10'']"
proof -
  have nq: "\<not> qt_importable pth_host"
    by (simp add: hosts)
  have pn: "platform_name (platform_system pth_host) = Inr ''linux''"
    by (simp add: steps hosts)
  have sp: "site_path_of pth_host ''linux'' (base_path_of pth_host ''linux'') =
              Inr ''/opt/app/python/vendors/py3.10/linux/lib/python3.10/site-packages''"
    by (simp add: steps hosts matches)
  have ad: "addsitedir pth_host
              ''/opt/app/python/vendors/py3.10/linux/lib/python3.10/site-packages''
              (sys_path linux_world) =
            sys_path linux_world @
              ''/opt/app/python/vendors/py3.10/linux/lib/python3.10/site-packages'' #
              [''/opt/app/extras'']"
    by (simp add: hosts worlds site_addsitedir_def linux_dirs_def)
  note rot = sys_path_rotated_at_former_length [OF nq pn sp returned_pair [OF pth_returns],
      of linux_world]
  from rot have "sys_path (snd (init_framework pth_host linux_world)) =
      ''/opt/app/python/vendors/py3.10/linux/lib/python3.10/site-packages'' #
      [''/opt/app/extras''] @ sys_path linux_world"
    using ad by blast
  then show ?thesis
    using ad by (simp add: worlds)
qed

end
